theory Spec2Isabelle
  imports Complex_Main
begin

section \<open>Python values\<close>

text \<open>
  A Python \<open>str\<close> is a sequence of Unicode code points and \<open>len\<close> counts code points,
  so a string is modelled as the list of its code points. \<open>str\<close> embeds an ASCII literal.
\<close>

type_synonym pystr = "nat list"

definition str :: "string \<Rightarrow> pystr" where
  "str s = map of_char s"

text \<open>
  A cell of a float64 column: a number or NaN (the marker pandas uses for a missing
  value). Numbers are the reals: rounding, overflow and the infinities of IEEE 754 are
  outside the model.
\<close>

datatype fl = Num real | NaN

text \<open>The exceptions the code can raise, with the message of \<open>Exception(msg)\<close>.\<close>

datatype error =
    KeyError string
  | ValueError pystr
  | TypeError pystr
  | Exception pystr

text \<open>\<open>str(e)\<close>\<close>

fun error_text :: "error \<Rightarrow> pystr" where
  "error_text (KeyError k) = str ([CHR 0x27] @ k @ [CHR 0x27])"
| "error_text (ValueError m) = m"
| "error_text (TypeError m) = m"
| "error_text (Exception m) = m"

definition bind_err :: "error + 'a \<Rightarrow> ('a \<Rightarrow> error + 'b) \<Rightarrow> error + 'b" where
  "bind_err m f = (case m of Inl e \<Rightarrow> Inl e | Inr x \<Rightarrow> f x)"

section \<open>The data cache and its frames\<close>

text \<open>
  A frame has its column labels and its rows in index order; a row gives the cell under
  each numeric column label. \<open>cache.lookup_dict\<close> maps (month, hour, day_type) to a frame.
\<close>

type_synonym row = "string \<Rightarrow> fl"

record dataframe =
  columns :: "string list"
  rows :: "row list"

type_synonym cache = "(int \<times> int \<times> pystr) \<rightharpoonup> dataframe"

text \<open>\<open>DataFrame.empty\<close>: some axis has length 0.\<close>

definition df_empty :: "dataframe \<Rightarrow> bool" where
  "df_empty df = (rows df = [] \<or> columns df = [])"

text \<open>\<open>Series.sum()\<close> with the default \<open>skipna=True\<close>: NaN cells are left out.\<close>

fun nansum :: "fl list \<Rightarrow> real" where
  "nansum [] = 0"
| "nansum (Num a # xs) = a + nansum xs"
| "nansum (NaN # xs) = nansum xs"

text \<open>Elementwise float product: NaN propagates.\<close>

fun fl_mult :: "fl \<Rightarrow> fl \<Rightarrow> fl" where
  "fl_mult (Num a) (Num b) = Num (a * b)"
| "fl_mult _ _ = NaN"

text \<open>\<open>df[c]\<close> raises KeyError when the frame has no column \<open>c\<close>.\<close>

definition column :: "dataframe \<Rightarrow> string \<Rightarrow> error + fl list" where
  "column df c =
     (if c \<in> set (columns df) then Inr (map (\<lambda>r. r c) (rows df)) else Inl (KeyError c))"

text \<open>\<open>row[c]\<close> and \<open>row.get(c, d)\<close> on a row of the frame.\<close>

definition row_item :: "dataframe \<Rightarrow> row \<Rightarrow> string \<Rightarrow> error + fl" where
  "row_item df r c = (if c \<in> set (columns df) then Inr (r c) else Inl (KeyError c))"

definition row_get :: "dataframe \<Rightarrow> row \<Rightarrow> string \<Rightarrow> fl \<Rightarrow> fl" where
  "row_get df r c d = (if c \<in> set (columns df) then r c else d)"

subsection \<open>nlargest\<close>

text \<open>
  \<open>DataFrame.nlargest(n, c)\<close> with the default \<open>keep='first'\<close>: the first \<open>n\<close> rows in
  descending order of column \<open>c\<close>, the first occurrences first among equal values, rows
  whose value is NaN after all others; each row keeps its index label. It is a stable
  descending insertion sort of the indexed rows, cut at \<open>n\<close>.
\<close>

fun outranks :: "fl \<Rightarrow> fl \<Rightarrow> bool" where
  "outranks (Num a) (Num b) = (b < a)"
| "outranks (Num a) NaN = True"
| "outranks NaN _ = False"

fun insert_desc :: "('a \<Rightarrow> fl) \<Rightarrow> 'a \<Rightarrow> 'a list \<Rightarrow> 'a list" where
  "insert_desc k x [] = [x]"
| "insert_desc k x (y # ys) =
     (if outranks (k y) (k x) then y # insert_desc k x ys else x # y # ys)"

definition sort_desc :: "('a \<Rightarrow> fl) \<Rightarrow> 'a list \<Rightarrow> 'a list" where
  "sort_desc k xs = foldr (insert_desc k) xs []"

definition nlargest :: "nat \<Rightarrow> string \<Rightarrow> dataframe \<Rightarrow> error + (nat \<times> row) list" where
  "nlargest n c df =
     (if c \<in> set (columns df)
      then Inr (take n (sort_desc (\<lambda>ir. snd ir c) (enumerate 0 (rows df))))
      else Inl (KeyError c))"

section \<open>DataExporter.get_context_summary\<close>

record duration_dist =
  under_10min :: real
  min_10_30 :: real
  over_30min :: real

record gender_dist =
  male_pct :: real
  female_pct :: real

record location =
  loc_lat :: fl
  loc_lon :: fl
  loc_total_users :: fl
  loc_under_10min :: fl
  loc_10_30min :: fl
  loc_over_30min :: fl

record context_summary =
  total_records :: nat
  total_users :: real
  duration_distribution :: duration_dist
  gender_distribution :: gender_dist
  age_distribution :: "(string \<times> real) list"
  top_locations :: "location list"

definition age_columns :: "string list" where
  "age_columns = [''age_1'', ''age_2'', ''age_3'', ''age_4'', ''age_5'',
                  ''age_6'', ''age_7'', ''age_8'', ''age_9'']"

text \<open>The summary returned when the lookup gives no frame or an empty one.\<close>

definition empty_summary :: context_summary where
  "empty_summary =
     \<lparr> total_records = 0,
       total_users = 0,
       duration_distribution = \<lparr> under_10min = 0, min_10_30 = 0, over_30min = 0 \<rparr>,
       gender_distribution = \<lparr> male_pct = 0, female_pct = 0 \<rparr>,
       age_distribution = map (\<lambda>c. (c, 0)) (age_columns @ [''age_other'']),
       top_locations = [] \<rparr>"

text \<open>\<open>float(df[c].sum()) if c in df.columns else 0.0\<close>\<close>

definition duration_total :: "dataframe \<Rightarrow> string \<Rightarrow> real" where
  "duration_total df c =
     (if c \<in> set (columns df) then nansum (map (\<lambda>r. r c) (rows df)) else 0)"

text \<open>\<open>float((df[c] * weights).sum() / total_users)\<close>\<close>

definition weighted_avg :: "dataframe \<Rightarrow> string \<Rightarrow> fl list \<Rightarrow> real \<Rightarrow> error + real" where
  "weighted_avg df c weights tu =
     bind_err (column df c) (\<lambda>cells. Inr (nansum (map2 fl_mult cells weights) / tu))"

text \<open>The body of the loops over \<open>age_1 .. age_9\<close> and the \<open>age_other\<close> statement.\<close>

definition age_entry :: "dataframe \<Rightarrow> fl list \<Rightarrow> real \<Rightarrow> string \<Rightarrow> string \<times> real" where
  "age_entry df weights tu c =
     (if c \<in> set (columns df) \<and> tu > 0
      then (c, nansum (map2 fl_mult (map (\<lambda>r. r c) (rows df)) weights) / tu)
      else (c, 0))"

text \<open>One entry of \<open>top_locations\<close>, built from a row of \<open>top_5\<close>.\<close>

definition location_entry :: "dataframe \<Rightarrow> string \<Rightarrow> row \<Rightarrow> error + location" where
  "location_entry df lng_col r =
     bind_err (row_item df r ''lat'') (\<lambda>lat.
     bind_err (row_item df r lng_col) (\<lambda>lon.
     bind_err (row_item df r ''avg_total_users'') (\<lambda>tu.
       Inr \<lparr> loc_lat = lat, loc_lon = lon, loc_total_users = tu,
             loc_under_10min = row_get df r ''avg_users_under_10min'' (Num 0),
             loc_10_30min = row_get df r ''avg_users_10_30min'' (Num 0),
             loc_over_30min = row_get df r ''avg_users_over_30min'' (Num 0) \<rparr>)))"

text \<open>The loop over \<open>top_5.iterrows()\<close>: the first row that raises ends it.\<close>

fun collect_locations :: "dataframe \<Rightarrow> string \<Rightarrow> (nat \<times> row) list \<Rightarrow> error + location list" where
  "collect_locations df lng_col [] = Inr []"
| "collect_locations df lng_col (ir # irs) =
     bind_err (location_entry df lng_col (snd ir)) (\<lambda>e.
     bind_err (collect_locations df lng_col irs) (\<lambda>es. Inr (e # es)))"

definition get_context_summary :: "cache \<Rightarrow> int \<Rightarrow> int \<Rightarrow> pystr \<Rightarrow> error + context_summary" where
  "get_context_summary lookup_dict month hour day_type =
     (case lookup_dict (month, hour, day_type) of
        None \<Rightarrow> Inr empty_summary
      | Some filtered_df \<Rightarrow>
          if df_empty filtered_df then Inr empty_summary
          else
            let lng_col = (if ''lng'' \<in> set (columns filtered_df) then ''lng'' else ''lon'');
                total_records = length (rows filtered_df)
            in
            bind_err (column filtered_df ''avg_total_users'') (\<lambda>weights.
            let total_users = nansum weights;
                total_under_10min = duration_total filtered_df ''avg_users_under_10min'';
                total_10_30min = duration_total filtered_df ''avg_users_10_30min'';
                total_over_30min = duration_total filtered_df ''avg_users_over_30min''
            in
            bind_err
              (if total_users > 0
               then bind_err (weighted_avg filtered_df ''sex_1'' weights total_users) (\<lambda>s1.
                    bind_err (weighted_avg filtered_df ''sex_2'' weights total_users) (\<lambda>s2.
                    Inr (s1, s2)))
               else Inr (0, 0))
              (\<lambda>(avg_sex_1, avg_sex_2).
            let age_distribution =
                  map (age_entry filtered_df weights total_users) age_columns
                  @ [age_entry filtered_df weights total_users ''age_other'']
            in
            bind_err (nlargest 5 ''avg_total_users'' filtered_df) (\<lambda>top_5.
            bind_err (collect_locations filtered_df lng_col top_5) (\<lambda>top_locations.
            Inr \<lparr> total_records = total_records,
                  total_users = total_users,
                  duration_distribution =
                    \<lparr> under_10min = total_under_10min,
                      min_10_30 = total_10_30min,
                      over_30min = total_over_30min \<rparr>,
                  gender_distribution = \<lparr> male_pct = avg_sex_1, female_pct = avg_sex_2 \<rparr>,
                  age_distribution = age_distribution,
                  top_locations = top_locations \<rparr>)))))"

section \<open>Notions for stating properties of the summary\<close>

text \<open>The longitude column the summary reads: \<open>lng\<close> when the frame has it, else \<open>lon\<close>.\<close>

definition lng_column :: "dataframe \<Rightarrow> string" where
  "lng_column df = (if ''lng'' \<in> set (columns df) then ''lng'' else ''lon'')"

text \<open>The columns \<open>get_context_summary\<close> reads without a guard.\<close>

definition required_columns :: "dataframe \<Rightarrow> bool" where
  "required_columns df =
     (''avg_total_users'' \<in> set (columns df) \<and> ''sex_1'' \<in> set (columns df) \<and>
      ''sex_2'' \<in> set (columns df) \<and> ''lat'' \<in> set (columns df) \<and>
      (''lng'' \<in> set (columns df) \<or> ''lon'' \<in> set (columns df)))"

text \<open>
  The value of a cell once missing data is read as zero: a NaN cell counts 0, and so
  does every cell of a column the frame does not have.
\<close>

fun zero_if_nan :: "fl \<Rightarrow> real" where
  "zero_if_nan (Num a) = a"
| "zero_if_nan NaN = 0"

definition cell_value :: "dataframe \<Rightarrow> row \<Rightarrow> string \<Rightarrow> real" where
  "cell_value df r c = (if c \<in> set (columns df) then zero_if_nan (r c) else 0)"

text \<open>The weighted sum of a field over the rows, weight \<open>avg_total_users\<close>.\<close>

definition weighted_total :: "dataframe \<Rightarrow> string \<Rightarrow> real" where
  "weighted_total df c =
     (\<Sum>r\<leftarrow>rows df. cell_value df r c * cell_value df r ''avg_total_users'')"

definition users_total :: "dataframe \<Rightarrow> real" where
  "users_total df = (\<Sum>r\<leftarrow>rows df. cell_value df r ''avg_total_users'')"

text \<open>The sum of a field over the rows.\<close>

definition column_total :: "dataframe \<Rightarrow> string \<Rightarrow> real" where
  "column_total df c = (\<Sum>r\<leftarrow>rows df. cell_value df r c)"

text \<open>The entry of \<open>top_locations\<close> for a row, and the indexed rows \<open>nlargest\<close> selects.\<close>

definition location_of :: "dataframe \<Rightarrow> row \<Rightarrow> location" where
  "location_of df r =
     \<lparr> loc_lat = r ''lat'', loc_lon = r (lng_column df), loc_total_users = r ''avg_total_users'',
       loc_under_10min = row_get df r ''avg_users_under_10min'' (Num 0),
       loc_10_30min = row_get df r ''avg_users_10_30min'' (Num 0),
       loc_over_30min = row_get df r ''avg_users_over_30min'' (Num 0) \<rparr>"

definition top_rows :: "dataframe \<Rightarrow> (nat \<times> row) list" where
  "top_rows df = take 5 (sort_desc (\<lambda>ir. snd ir ''avg_total_users'') (enumerate 0 (rows df)))"

text \<open>
  Row \<open>i\<close> is ranked before row \<open>j\<close>: its \<open>avg_total_users\<close> is larger (NaN below every
  number), or the two are equal and \<open>i\<close> comes first in the frame.
\<close>

definition ranked_before :: "dataframe \<Rightarrow> nat \<Rightarrow> nat \<Rightarrow> bool" where
  "ranked_before df i j =
     (outranks ((rows df ! i) ''avg_total_users'') ((rows df ! j) ''avg_total_users'') \<or>
      ((rows df ! i) ''avg_total_users'' = (rows df ! j) ''avg_total_users'' \<and> i < j))"

text \<open>
  The order \<open>nlargest\<close> puts indexed items in: larger key first, equal keys by index.
\<close>

definition precedes :: "(nat \<times> 'a \<Rightarrow> fl) \<Rightarrow> nat \<times> 'a \<Rightarrow> nat \<times> 'a \<Rightarrow> bool" where
  "precedes k a b = (outranks (k a) (k b) \<or> (k a = k b \<and> fst a < fst b))"

text \<open>
  The frame has the three dwell-time columns, and in a row the three bucket counts add
  up to the row's \<open>avg_total_users\<close> (as float comparison has it: no NaN involved).
\<close>

definition duration_columns :: "dataframe \<Rightarrow> bool" where
  "duration_columns df =
     (''avg_users_under_10min'' \<in> set (columns df) \<and>
      ''avg_users_10_30min'' \<in> set (columns df) \<and>
      ''avg_users_over_30min'' \<in> set (columns df))"

definition buckets_sum_to_total :: "row \<Rightarrow> bool" where
  "buckets_sum_to_total r =
     (case (r ''avg_users_under_10min'', r ''avg_users_10_30min'',
            r ''avg_users_over_30min'', r ''avg_total_users'') of
        (Num a, Num b, Num c, Num t) \<Rightarrow> a + b + c = t
      | _ \<Rightarrow> False)"

section \<open>OllamaService\<close>

text \<open>A message dict \<open>{"role": ..., "content": ...}\<close>.\<close>

record message =
  role :: pystr
  content :: pystr

subsection \<open>check_health\<close>

text \<open>
  The two shapes \<open>client.list()\<close> returns: a ListResponse object whose \<open>models\<close> each
  have a \<open>model\<close> attribute, or a dict whose \<open>models\<close> entry (when there is one) lists
  dicts with a \<open>name\<close> and/or a \<open>model\<close> key.
\<close>

record model_dict =
  name_key :: "pystr option"
  model_key :: "pystr option"

datatype list_response =
    ListResponse "pystr list"
  | ListDict "model_dict list option"

datatype connection = connected | degraded | disconnected

record health =
  status :: connection
  model_loaded :: bool
  available_models :: "pystr list"
  error :: "pystr option"

definition model_names :: "list_response \<Rightarrow> pystr list" where
  "model_names resp =
     (case resp of
        ListResponse models \<Rightarrow> models
      | ListDict d \<Rightarrow>
          map (\<lambda>m. case name_key m of
                      Some n \<Rightarrow> n
                    | None \<Rightarrow> (case model_key m of Some n \<Rightarrow> n | None \<Rightarrow> []))
              (case d of None \<Rightarrow> [] | Some models \<Rightarrow> models))"

text \<open>
  \<open>listed\<close> is the outcome of \<open>self.client.list()\<close>: \<open>Inl e\<close> when it raises, with \<open>e\<close> the
  text of the exception. The \<open>except\<close> clause covers the whole body.
\<close>

definition check_health :: "pystr \<Rightarrow> pystr \<Rightarrow> pystr + list_response \<Rightarrow> health" where
  "check_health self_host self_model listed =
     (case listed of
        Inr resp \<Rightarrow>
          let names = model_names resp;
              loaded = (self_model \<in> set names)
          in \<lparr> status = (if loaded then connected else degraded),
               model_loaded = loaded,
               available_models = names,
               error = (if loaded then None
                        else Some (str ''Model '' @ self_model
                                   @ str '' not found. Run: ollama pull '' @ self_model)) \<rparr>
      | Inl e \<Rightarrow>
          \<lparr> status = disconnected,
            model_loaded = False,
            available_models = [],
            error = Some (str ''Cannot connect to Ollama at '' @ self_host @ str '': '' @ e) \<rparr>)"

subsection \<open>generate_response\<close>

text \<open>
  A counter of an engine response, as Python finds it: the attribute or key is missing;
  or it is there and holds \<open>None\<close> (the ChatResponse object of the ollama client
  declares \<open>eval_count\<close> and \<open>prompt_eval_count\<close> as optional fields, which hold \<open>None\<close>
  when the engine's reply leaves them out); or it holds an integer.
\<close>

datatype counter = Missing | IsNone | Count int

text \<open>
  The two shapes \<open>client.chat()\<close> returns, each with the content of its message and
  its two counters: a ChatResponse object (it has a \<open>message\<close> attribute) or a dict.
\<close>

datatype chat_response =
    ChatObject pystr counter counter
  | ChatDict pystr counter counter

text \<open>
  A counter read with the default 0, by \<open>r.c if hasattr(r, 'c') else 0\<close> or by
  \<open>r.get('c', 0)\<close>: the result is a Python value, \<open>None\<close> standing for Python's \<open>None\<close>.
\<close>

fun read_counter :: "counter \<Rightarrow> int option" where
  "read_counter Missing = Some 0"
| "read_counter IsNone = None"
| "read_counter (Count n) = Some n"

text \<open>\<open>a + b\<close> on such values: an operand that is \<open>None\<close> raises TypeError.\<close>

definition operand_error :: "string \<Rightarrow> string \<Rightarrow> pystr" where
  "operand_error a b =
     str (''unsupported operand type(s) for +: '' @ [CHR 0x27] @ a @ [CHR 0x27]
          @ '' and '' @ [CHR 0x27] @ b @ [CHR 0x27])"

fun py_add :: "int option \<Rightarrow> int option \<Rightarrow> error + int" where
  "py_add (Some a) (Some b) = Inr (a + b)"
| "py_add None (Some b) = Inl (TypeError (operand_error ''NoneType'' ''int''))"
| "py_add (Some a) None = Inl (TypeError (operand_error ''int'' ''NoneType''))"
| "py_add None None = Inl (TypeError (operand_error ''NoneType'' ''NoneType''))"

record generated =
  response :: pystr
  model :: pystr
  tokens_used :: int

text \<open>A call made on \<open>self.client\<close>, with its arguments.\<close>

datatype client_call = ListCall | ChatCall pystr "message list"

text \<open>\<open>xs[-n:]\<close> for \<open>n > 0\<close>: the last \<open>n\<close> elements, all of them when there are fewer.\<close>

definition last_n :: "nat \<Rightarrow> 'a list \<Rightarrow> 'a list" where
  "last_n n xs = drop (length xs - n) xs"

text \<open>
  \<open>build_system_prompt\<close> renders a fixed template around the filter values and the JSON
  text of the summary; the rendering of floats is outside the model, so the prompt
  builder is a parameter. \<open>chat\<close> is \<open>self.client.chat\<close>: \<open>Inl e\<close> when it raises.
  The \<open>except\<close> clause covers the whole body, so an exception raised while the response
  is read is wrapped like one raised by the call. The result is the list of calls made
  on the client and the returned dict or the raised exception.
\<close>

definition generate_response ::
  "('ctx \<Rightarrow> pystr) \<Rightarrow> (pystr \<Rightarrow> message list \<Rightarrow> pystr + chat_response) \<Rightarrow> pystr \<Rightarrow>
   pystr \<Rightarrow> 'ctx \<Rightarrow> message list option \<Rightarrow> client_call list \<times> (error + generated)" where
  "generate_response build_system_prompt chat self_model user_message data_context history =
     (let system_prompt = build_system_prompt data_context;
          messages0 = [\<lparr> role = str ''system'', content = system_prompt \<rparr>];
          messages1 = (case history of
                         None \<Rightarrow> messages0
                       | Some h \<Rightarrow> if h \<noteq> [] then messages0 @ last_n 20 h else messages0);
          messages = messages1 @ [\<lparr> role = str ''user'', content = user_message \<rparr>]
      in ([ChatCall self_model messages],
          case chat self_model messages of
            Inl e \<Rightarrow> Inl (Exception (str ''Failed to generate response: '' @ e))
          | Inr (ChatObject ai_response ec pc) \<Rightarrow>
              let eval_count = read_counter ec;
                  prompt_eval_count = read_counter pc
              in (case py_add eval_count prompt_eval_count of
                    Inl e \<Rightarrow>
                      Inl (Exception (str ''Failed to generate response: '' @ error_text e))
                  | Inr t \<Rightarrow>
                      Inr \<lparr> response = ai_response, model = self_model, tokens_used = t \<rparr>)
          | Inr (ChatDict ai_response ec pc) \<Rightarrow>
              (case py_add (read_counter ec) (read_counter pc) of
                 Inl e \<Rightarrow>
                   Inl (Exception (str ''Failed to generate response: '' @ error_text e))
               | Inr t \<Rightarrow>
                   Inr \<lparr> response = ai_response, model = self_model, tokens_used = t \<rparr>)))"

subsection \<open>Notions for stating properties of the conversation\<close>

text \<open>The history a caller supplied: nothing when the argument is \<open>None\<close>.\<close>

definition supplied :: "message list option \<Rightarrow> message list" where
  "supplied history = (case history of None \<Rightarrow> [] | Some h \<Rightarrow> h)"

text \<open>What an engine response carries, whichever its shape.\<close>

fun chat_content :: "chat_response \<Rightarrow> pystr" where
  "chat_content (ChatObject c e p) = c"
| "chat_content (ChatDict c e p) = c"

fun chat_eval_count :: "chat_response \<Rightarrow> counter" where
  "chat_eval_count (ChatObject c e p) = e"
| "chat_eval_count (ChatDict c e p) = e"

fun chat_prompt_eval_count :: "chat_response \<Rightarrow> counter" where
  "chat_prompt_eval_count (ChatObject c e p) = p"
| "chat_prompt_eval_count (ChatDict c e p) = p"

text \<open>A counter with no number in it read as 0.\<close>

fun or_zero :: "counter \<Rightarrow> int" where
  "or_zero Missing = 0"
| "or_zero IsNone = 0"
| "or_zero (Count n) = n"

text \<open>The messages a call on the client carries.\<close>

fun call_messages :: "client_call \<Rightarrow> message list" where
  "call_messages ListCall = []"
| "call_messages (ChatCall m msgs) = msgs"

section \<open>The request models of the chat API\<close>

text \<open>
  The pydantic models \<open>ChatMessage\<close>, \<open>DataContext\<close> and \<open>ChatRequest\<close>. A record holds
  the fields of a request body as received; the \<open>valid_\<close> predicates are the field
  constraints pydantic enforces when it builds the model.
\<close>

record chat_message =
  cm_role :: pystr
  cm_content :: pystr
  cm_timestamp :: "int option"

record data_context =
  ctx_month :: int
  ctx_hour :: int
  ctx_day_type :: pystr

record chat_request =
  req_message :: pystr
  req_context :: data_context
  req_history :: "chat_message list"

text \<open>The two day-type labels, U+5E73 U+65E5 (weekday) and U+5047 U+65E5 (weekend).\<close>

definition weekday_label :: pystr where
  "weekday_label = [24179, 26085]"

definition weekend_label :: pystr where
  "weekend_label = [20551, 26085]"

definition validate_month :: "int \<Rightarrow> error + int" where
  "validate_month v =
     (if \<not> (100000 \<le> v \<and> v \<le> 999912)
      then Inl (ValueError (str ''Month must be in YYYYMM format (e.g., 202412)''))
      else Inr v)"

definition valid_chat_message :: "chat_message \<Rightarrow> bool" where
  "valid_chat_message m =
     (cm_role m \<in> {str ''user'', str ''assistant'', str ''system''} \<and>
      1 \<le> length (cm_content m) \<and> length (cm_content m) \<le> 10000)"

definition valid_data_context :: "data_context \<Rightarrow> bool" where
  "valid_data_context c =
     ((case validate_month (ctx_month c) of Inl e \<Rightarrow> False | Inr v \<Rightarrow> True) \<and>
      0 \<le> ctx_hour c \<and> ctx_hour c \<le> 23 \<and>
      ctx_day_type c \<in> {weekday_label, weekend_label})"

definition valid_chat_request :: "chat_request \<Rightarrow> bool" where
  "valid_chat_request rq =
     (1 \<le> length (req_message rq) \<and> length (req_message rq) \<le> 500 \<and>
      valid_data_context (req_context rq) \<and>
      length (req_history rq) \<le> 20 \<and>
      list_all valid_chat_message (req_history rq))"

section \<open>The route POST /chat/message\<close>

text \<open>
  What the route works with: the configured host and model, the outcome of
  \<open>client.list()\<close>, the client's \<open>chat\<close>, the cache and the prompt builder.
\<close>

record services =
  ollama_host :: pystr
  ollama_model :: pystr
  client_list :: "pystr + list_response"
  client_chat :: "pystr \<Rightarrow> message list \<Rightarrow> pystr + chat_response"
  exporter_cache :: cache
  prompt_builder :: "int \<times> int \<times> pystr \<times> context_summary \<Rightarrow> pystr"

text \<open>An access the handling of a request makes: a call on the engine or a cache lookup.\<close>

datatype access = Engine client_call | Cache int int pystr

record chat_reply =
  reply_response :: pystr
  reply_timestamp :: int
  reply_model :: pystr
  reply_tokens_used :: int

text \<open>
  A failed request: the body did not validate against \<open>ChatRequest\<close> (FastAPI answers
  before the handler runs), or the handler raised \<open>HTTPException(status_code, detail)\<close>.
\<close>

datatype failure = RequestValidationError | HTTPException nat pystr

text \<open>
  The result is the accesses made, in order, and the response or the failure. \<open>now\<close> is
  the clock reading in milliseconds taken for the response.
\<close>

definition send_message :: "services \<Rightarrow> int \<Rightarrow> chat_request \<Rightarrow> access list \<times> (failure + chat_reply)" where
  "send_message sv now request =
     (if \<not> valid_chat_request request then ([], Inl RequestValidationError)
      else
        let health = check_health (ollama_host sv) (ollama_model sv) (client_list sv)
        in
        if status health \<noteq> connected
        then ([Engine ListCall],
              Inl (HTTPException 503
                     (str ''Ollama service is not available. ''
                      @ (case error health of Some e \<Rightarrow> e | None \<Rightarrow> str ''None''))))
        else
          let month = ctx_month (req_context request);
              hour = ctx_hour (req_context request);
              day_type = ctx_day_type (req_context request)
          in
          case get_context_summary (exporter_cache sv) month hour day_type of
            Inl e \<Rightarrow>
              ([Engine ListCall, Cache month hour day_type],
               Inl (HTTPException 500 (str ''Failed to generate response: '' @ error_text e)))
          | Inr summary \<Rightarrow>
              let data_context = (month, hour, day_type, summary);
                  history = map (\<lambda>msg. \<lparr> role = cm_role msg, content = cm_content msg \<rparr>)
                                (req_history request);
                  (calls, result) =
                    generate_response (prompt_builder sv) (client_chat sv)
                      (ollama_model sv) (req_message request) data_context (Some history)
              in
              (Engine ListCall # Cache month hour day_type # map Engine calls,
               case result of
                 Inl e \<Rightarrow>
                   Inl (HTTPException 500 (str ''Failed to generate response: '' @ error_text e))
               | Inr r \<Rightarrow>
                   Inr \<lparr> reply_response = response r, reply_timestamp = now,
                         reply_model = model r, reply_tokens_used = tokens_used r \<rparr>))"

section \<open>Example inputs\<close>

text \<open>A row from the cells it holds; the filter (202412, 8, weekday) is used throughout.\<close>

definition mk_row :: "(string \<times> fl) list \<Rightarrow> row" where
  "mk_row cells c = (case map_of cells c of Some v \<Rightarrow> v | None \<Rightarrow> NaN)"

definition example_columns :: "string list" where
  "example_columns =
     [''lat'', ''lng'', ''avg_total_users'', ''avg_users_under_10min'', ''avg_users_10_30min'',
      ''avg_users_over_30min'', ''sex_1'', ''sex_2'', ''age_1'', ''age_2'']"

definition row_a :: row where
  "row_a = mk_row
     [(''lat'', Num 25), (''lng'', Num 121), (''avg_total_users'', Num 100),
      (''avg_users_under_10min'', Num 30), (''avg_users_10_30min'', Num 50),
      (''avg_users_over_30min'', Num 20), (''sex_1'', Num 60), (''sex_2'', Num 40),
      (''age_1'', Num 10), (''age_2'', Num 90)]"

definition row_b :: row where
  "row_b = mk_row
     [(''lat'', Num 24), (''lng'', Num 120), (''avg_total_users'', Num 50),
      (''avg_users_under_10min'', Num 15), (''avg_users_10_30min'', Num 25),
      (''avg_users_over_30min'', Num 10), (''sex_1'', Num 30), (''sex_2'', Num 70),
      (''age_1'', Num 40), (''age_2'', Num 60)]"

text \<open>Row b again at another place, and a row whose shortest dwell-time cell is missing.\<close>

definition row_c :: row where
  "row_c = mk_row
     [(''lat'', Num 23), (''lng'', Num 119), (''avg_total_users'', Num 50),
      (''avg_users_under_10min'', Num 15), (''avg_users_10_30min'', Num 25),
      (''avg_users_over_30min'', Num 10), (''sex_1'', Num 30), (''sex_2'', Num 70),
      (''age_1'', Num 40), (''age_2'', Num 60)]"

definition row_nan :: row where
  "row_nan = mk_row
     [(''lat'', Num 25), (''lng'', Num 121), (''avg_total_users'', Num 10),
      (''avg_users_under_10min'', NaN), (''avg_users_10_30min'', Num 6),
      (''avg_users_over_30min'', Num 4), (''sex_1'', Num 60), (''sex_2'', Num 40),
      (''age_1'', Num 10), (''age_2'', Num 90)]"

definition example_frame :: dataframe where
  "example_frame = \<lparr> columns = example_columns, rows = [row_a, row_b] \<rparr>"

definition tie_frame :: dataframe where
  "tie_frame = \<lparr> columns = example_columns, rows = [row_b, row_a, row_c] \<rparr>"

definition nan_frame :: dataframe where
  "nan_frame = \<lparr> columns = example_columns, rows = [row_nan] \<rparr>"

definition no_rows_frame :: dataframe where
  "no_rows_frame = \<lparr> columns = example_columns, rows = [] \<rparr>"

definition cache_of :: "dataframe \<Rightarrow> cache" where
  "cache_of df = [(202412, 8, weekday_label) \<mapsto> df]"

text \<open>A history of 21 turns, an engine that answers, and a request.\<close>

definition turn :: "nat \<Rightarrow> message" where
  "turn i = \<lparr> role = str ''user'', content = [i] \<rparr>"

definition long_history :: "message list" where
  "long_history = map turn [0, 1, 2, 3, 4, 5, 6, 7, 8, 9, 10, 11, 12, 13, 14, 15, 16, 17, 18, 19, 20]"

definition example_chat :: "pystr \<Rightarrow> message list \<Rightarrow> pystr + chat_response" where
  "example_chat m msgs = Inr (ChatDict (str ''ok'') (Count 7) Missing)"

definition example_services :: services where
  "example_services =
     \<lparr> ollama_host = str ''http://localhost:11434'',
       ollama_model = str ''qwen2.5:7b'',
       client_list = Inr (ListResponse [str ''qwen2.5:7b'']),
       client_chat = example_chat,
       exporter_cache = cache_of example_frame,
       prompt_builder = (\<lambda>ctx. str ''prompt'') \<rparr>"

definition example_request :: chat_request where
  "example_request =
     \<lparr> req_message = str ''busiest hour?'',
       req_context = \<lparr> ctx_month = 202412, ctx_hour = 8, ctx_day_type = weekday_label \<rparr>,
       req_history = [] \<rparr>"

text \<open>
  An engine that answers with a ChatResponse object whose \<open>eval_count\<close> holds \<open>None\<close>,
  and a data context.
\<close>

definition object_chat :: "pystr \<Rightarrow> message list \<Rightarrow> pystr + chat_response" where
  "object_chat m msgs = Inr (ChatObject (str ''ok'') IsNone (Count 5))"

definition example_context :: "int \<times> int \<times> pystr \<times> context_summary" where
  "example_context = (202412, 8, weekday_label, empty_summary)"

section \<open>Sums that skip NaN\<close>

lemma nansum_zero_if_nan: "nansum (map f xs) = (\<Sum>x\<leftarrow>xs. zero_if_nan (f x))"
proof (induction xs)
  case Nil
  show ?case by simp
next
  case (Cons x xs)
  then show ?case by (cases "f x") simp_all
qed

lemma zero_if_nan_mult: "zero_if_nan (fl_mult a b) = zero_if_nan a * zero_if_nan b"
  by (cases a; cases b) simp_all

lemma nansum_products:
  "nansum (map2 fl_mult (map f xs) (map g xs)) = (\<Sum>x\<leftarrow>xs. zero_if_nan (f x) * zero_if_nan (g x))"
proof (induction xs)
  case Nil
  show ?case by simp
next
  case (Cons x xs)
  have "nansum (fl_mult (f x) (g x) # ys) = zero_if_nan (f x) * zero_if_nan (g x) + nansum ys" for ys
    by (cases "f x"; cases "g x") simp_all
  with Cons show ?case by simp
qed

lemma users_total_nansum:
  "''avg_total_users'' \<in> set (columns df) \<Longrightarrow>
   nansum (map (\<lambda>r. r ''avg_total_users'') (rows df)) = users_total df"
  by (simp add: users_total_def cell_value_def nansum_zero_if_nan)

lemma weighted_total_nansum:
  assumes "''avg_total_users'' \<in> set (columns df)" "c \<in> set (columns df)"
  shows "nansum (map2 fl_mult (map (\<lambda>r. r c) (rows df)) (map (\<lambda>r. r ''avg_total_users'') (rows df)))
         = weighted_total df c"
  using assms by (simp add: weighted_total_def cell_value_def nansum_products)

lemma weighted_total_absent: "c \<notin> set (columns df) \<Longrightarrow> weighted_total df c = 0"
  by (simp add: weighted_total_def cell_value_def)

lemma age_entry_value:
  assumes "''avg_total_users'' \<in> set (columns df)"
  shows "age_entry df (map (\<lambda>r. r ''avg_total_users'') (rows df)) tu c =
         (c, if tu > 0 then weighted_total df c / tu else 0)"
  using assms
  by (cases "c \<in> set (columns df)")
     (simp_all add: age_entry_def weighted_total_nansum weighted_total_absent)

lemma map_of_entries: "c \<in> set cs \<Longrightarrow> (\<And>x. f x = (x, g x)) \<Longrightarrow> map_of (map f cs) c = Some (g c)"
  by (induction cs) auto

section \<open>The order of nlargest\<close>

lemma outranks_total: "\<not> outranks b a \<Longrightarrow> outranks a b \<or> a = b"
  by (cases a; cases b) auto

lemma outranks_asym: "outranks a b \<Longrightarrow> \<not> outranks b a"
  by (cases a; cases b) auto

lemma not_outranks_trans: "\<not> outranks b a \<Longrightarrow> \<not> outranks c b \<Longrightarrow> \<not> outranks c a"
  by (cases a; cases b; cases c) auto

lemma set_insert_desc: "set (insert_desc k x ys) = insert x (set ys)"
  by (induction ys) auto

lemma length_insert_desc: "length (insert_desc k x ys) = Suc (length ys)"
  by (induction ys) auto

lemma set_sort_desc: "set (sort_desc k xs) = set xs"
  by (induction xs) (simp_all add: sort_desc_def set_insert_desc)

lemma length_sort_desc: "length (sort_desc k xs) = length xs"
  by (induction xs) (simp_all add: sort_desc_def length_insert_desc)

lemma precedes_not_outranks: "precedes k a b \<Longrightarrow> \<not> outranks (k b) (k a)"
  by (auto simp: precedes_def outranks_asym) (cases "k b", auto)

lemma sorted_insert_desc:
  assumes "sorted_wrt (precedes k) ys" "\<forall>y\<in>set ys. fst x < fst y"
  shows "sorted_wrt (precedes k) (insert_desc k x ys)"
  using assms
proof (induction ys)
  case Nil
  show ?case by simp
next
  case (Cons y ys)
  show ?case
  proof (cases "outranks (k y) (k x)")
    case True
    have "precedes k y x" using True by (simp add: precedes_def)
    with Cons True show ?thesis by (auto simp: set_insert_desc)
  next
    case False
    have xy: "precedes k x y"
      using outranks_total[OF False] Cons.prems(2) by (auto simp: precedes_def)
    have "precedes k x z" if "z \<in> set ys" for z
    proof -
      have "precedes k y z" using Cons.prems(1) that by simp
      then have "\<not> outranks (k z) (k y)" by (rule precedes_not_outranks)
      with False have "\<not> outranks (k z) (k x)" by (rule not_outranks_trans)
      then have "outranks (k x) (k z) \<or> k x = k z" by (rule outranks_total)
      moreover have "fst x < fst z" using Cons.prems(2) that by simp
      ultimately show ?thesis by (auto simp: precedes_def)
    qed
    with xy Cons.prems(1) False show ?thesis by auto
  qed
qed

lemma sorted_sort_desc:
  "sorted_wrt (\<lambda>a b. fst a < fst b) xs \<Longrightarrow> sorted_wrt (precedes k) (sort_desc k xs)"
proof (induction xs)
  case Nil
  show ?case by (simp add: sort_desc_def)
next
  case (Cons x xs)
  have "sorted_wrt (precedes k) (sort_desc k xs)" using Cons by simp
  moreover have "\<forall>y\<in>set (sort_desc k xs). fst x < fst y"
    using Cons.prems by (simp add: set_sort_desc)
  ultimately have "sorted_wrt (precedes k) (insert_desc k x (sort_desc k xs))"
    by (rule sorted_insert_desc)
  then show ?case by (simp add: sort_desc_def)
qed

lemma enumerate_index_sorted: "sorted_wrt (\<lambda>a b. fst a < fst b) (enumerate n xs)"
  by (induction xs arbitrary: n) (auto simp: in_set_enumerate_eq)

lemma top_rows_members:
  "ir \<in> set (top_rows df) \<Longrightarrow> fst ir < length (rows df) \<and> snd ir = rows df ! fst ir"
  by (auto simp: top_rows_def set_sort_desc in_set_enumerate_eq dest!: in_set_takeD)

lemma length_top_rows: "length (top_rows df) = min 5 (length (rows df))"
  by (simp add: top_rows_def length_sort_desc min.commute)

lemma sorted_top_rows: "sorted_wrt (precedes (\<lambda>ir. snd ir ''avg_total_users'')) (top_rows df)"
  unfolding top_rows_def
  by (rule sorted_wrt_take) (rule sorted_sort_desc, rule enumerate_index_sorted)

lemma top_indices_ranked: "sorted_wrt (ranked_before df) (map fst (top_rows df))"
proof -
  have "sorted_wrt (\<lambda>a b. ranked_before df (fst a) (fst b)) (top_rows df)"
    using sorted_top_rows[of df]
  proof (rule sorted_wrt_mono_rel[rotated])
    fix a b
    assume "a \<in> set (top_rows df)" "b \<in> set (top_rows df)"
      and "precedes (\<lambda>ir. snd ir ''avg_total_users'') a b"
    then show "ranked_before df (fst a) (fst b)"
      by (simp add: precedes_def ranked_before_def top_rows_members)
  qed
  then show ?thesis by (simp add: sorted_wrt_map)
qed

lemma distinct_top_indices: "distinct (map fst (top_rows df))"
proof -
  have "ranked_before df i j \<Longrightarrow> i \<noteq> j" for i j
    by (auto simp: ranked_before_def dest: outranks_asym)
  then show ?thesis
    using top_indices_ranked[of df] by (simp add: distinct_conv_nth sorted_wrt_iff_nth_less)
      (metis nat_neq_iff nth_map length_map)
qed

section \<open>What get_context_summary returns\<close>

lemma location_entry_ok:
  "required_columns df \<Longrightarrow> location_entry df (lng_column df) r = Inr (location_of df r)"
  by (auto simp: required_columns_def location_entry_def location_of_def row_item_def
      bind_err_def lng_column_def)

lemma collect_locations_ok:
  "required_columns df \<Longrightarrow>
   collect_locations df (lng_column df) irs = Inr (map (\<lambda>ir. location_of df (snd ir)) irs)"
  by (induction irs) (simp_all add: location_entry_ok bind_err_def)

lemma get_context_summary_ok:
  assumes "lookup_dict (month, hour, day_type) = Some df" "rows df \<noteq> []" "required_columns df"
  shows "get_context_summary lookup_dict month hour day_type =
     Inr \<lparr> total_records = length (rows df),
           total_users = users_total df,
           duration_distribution =
             \<lparr> under_10min = duration_total df ''avg_users_under_10min'',
               min_10_30 = duration_total df ''avg_users_10_30min'',
               over_30min = duration_total df ''avg_users_over_30min'' \<rparr>,
           gender_distribution =
             (if users_total df > 0
              then \<lparr> male_pct = weighted_total df ''sex_1'' / users_total df,
                     female_pct = weighted_total df ''sex_2'' / users_total df \<rparr>
              else \<lparr> male_pct = 0, female_pct = 0 \<rparr>),
           age_distribution =
             map (\<lambda>c. (c, if users_total df > 0 then weighted_total df c / users_total df else 0))
                 (age_columns @ [''age_other'']),
           top_locations = map (\<lambda>ir. location_of df (snd ir)) (top_rows df) \<rparr>"
proof -
  have lng: "(if ''lng'' \<in> set (columns df) then ''lng'' else ''lon'') = lng_column df"
    by (simp add: lng_column_def)
  have cols: "''avg_total_users'' \<in> set (columns df)" "''sex_1'' \<in> set (columns df)"
    "''sex_2'' \<in> set (columns df)"
    using assms(3) by (simp_all add: required_columns_def)
  have ne: "\<not> df_empty df" using assms(2) cols(1) by (auto simp: df_empty_def)
  show ?thesis
    unfolding get_context_summary_def
    using assms(1) ne cols
    by (simp add: lng Let_def bind_err_def column_def weighted_avg_def nlargest_def
        collect_locations_ok[OF assms(3)] top_rows_def users_total_nansum
        weighted_total_nansum age_entry_value del: set_append)
qed

lemma get_context_summary_no_rows:
  assumes "lookup_dict (month, hour, day_type) = Some df" "rows df = []"
  shows "get_context_summary lookup_dict month hour day_type = Inr empty_summary"
  using assms by (simp add: get_context_summary_def df_empty_def)

lemma summary_fields:
  assumes "lookup_dict (month, hour, day_type) = Some df" "rows df \<noteq> []" "required_columns df"
  shows "\<exists>s. get_context_summary lookup_dict month hour day_type = Inr s \<and>
     total_records s = length (rows df) \<and>
     total_users s = users_total df \<and>
     duration_distribution s =
       \<lparr> under_10min = duration_total df ''avg_users_under_10min'',
         min_10_30 = duration_total df ''avg_users_10_30min'',
         over_30min = duration_total df ''avg_users_over_30min'' \<rparr> \<and>
     gender_distribution s =
       (if users_total df > 0
        then \<lparr> male_pct = weighted_total df ''sex_1'' / users_total df,
               female_pct = weighted_total df ''sex_2'' / users_total df \<rparr>
        else \<lparr> male_pct = 0, female_pct = 0 \<rparr>) \<and>
     age_distribution s =
       map (\<lambda>c. (c, if users_total df > 0 then weighted_total df c / users_total df else 0))
           (age_columns @ [''age_other'']) \<and>
     top_locations s = map (\<lambda>ir. location_of df (snd ir)) (top_rows df)"
  by (simp add: get_context_summary_ok[of lookup_dict month hour day_type df, OF assms]
      del: map_append)

lemma bucket_sums:
  "list_all buckets_sum_to_total rs \<Longrightarrow>
   nansum (map (\<lambda>r. r ''avg_users_under_10min'') rs)
   + nansum (map (\<lambda>r. r ''avg_users_10_30min'') rs)
   + nansum (map (\<lambda>r. r ''avg_users_over_30min'') rs)
   = nansum (map (\<lambda>r. r ''avg_total_users'') rs)"
proof (induction rs)
  case Nil
  show ?case by simp
next
  case (Cons r rs)
  from Cons.prems have "buckets_sum_to_total r" by simp
  then obtain a b c where
    "r ''avg_users_under_10min'' = Num a" "r ''avg_users_10_30min'' = Num b"
    "r ''avg_users_over_30min'' = Num c" "r ''avg_total_users'' = Num (a + b + c)"
    by (auto simp: buckets_sum_to_total_def split: fl.splits)
  with Cons show ?case by simp
qed


subsection \<open>History truncation\<close>

lemma last_n_suffix: "xs = take (length xs - n) xs @ last_n n xs"
  by (simp add: last_n_def)

lemma length_last_n: "length (last_n n xs) = min n (length xs)"
  by (simp add: last_n_def)

section \<open>The summary: claims\<close>

text \<open>
  Claim C1. For a non-empty row set, \<open>get_context_summary\<close> returns a summary in which
  each of the two gender percentages and each of the ten age percentages is the weighted
  sum of the field over the rows, with the one weight vector \<open>avg_total_users\<close>, divided
  by \<open>total_users\<close> when \<open>total_users > 0\<close>, and is exactly 0 when \<open>total_users = 0\<close>.
  A NaN cell, and a cell of an age column the frame lacks, counts as 0 in these sums; the
  percentages are real numbers in both cases.
\<close>

theorem weighted_percentages:
  assumes "lookup_dict (month, hour, day_type) = Some df" "rows df \<noteq> []" "required_columns df"
  shows "\<exists>s. get_context_summary lookup_dict month hour day_type = Inr s \<and>
     total_users s = users_total df \<and>
     map fst (age_distribution s) = age_columns @ [''age_other''] \<and>
     (total_users s > 0 \<longrightarrow>
        male_pct (gender_distribution s) = weighted_total df ''sex_1'' / users_total df \<and>
        female_pct (gender_distribution s) = weighted_total df ''sex_2'' / users_total df \<and>
        (\<forall>c\<in>set (age_columns @ [''age_other'']).
           map_of (age_distribution s) c = Some (weighted_total df c / users_total df))) \<and>
     (total_users s = 0 \<longrightarrow>
        male_pct (gender_distribution s) = 0 \<and>
        female_pct (gender_distribution s) = 0 \<and>
        (\<forall>c\<in>set (age_columns @ [''age_other'']). map_of (age_distribution s) c = Some 0))"
proof -
  let ?g = "\<lambda>c. if users_total df > 0 then weighted_total df c / users_total df else 0"
  let ?cs = "age_columns @ [''age_other'']"
  from summary_fields[of lookup_dict month hour day_type df, OF assms] obtain s where
    s: "get_context_summary lookup_dict month hour day_type = Inr s"
    and tu: "total_users s = users_total df"
    and g: "gender_distribution s =
              (if users_total df > 0
               then \<lparr> male_pct = weighted_total df ''sex_1'' / users_total df,
                      female_pct = weighted_total df ''sex_2'' / users_total df \<rparr>
               else \<lparr> male_pct = 0, female_pct = 0 \<rparr>)"
    and a: "age_distribution s = map (\<lambda>c. (c, ?g c)) ?cs"
    by blast
  have keys: "map fst (age_distribution s) = ?cs"
    unfolding a by (simp add: comp_def del: map_append)
  have "map_of (map (\<lambda>c. (c, ?g c)) ?cs) c = Some (?g c)" if "c \<in> set ?cs" for c
    using that by (rule map_of_entries) simp
  then have ages: "\<forall>c\<in>set ?cs. map_of (age_distribution s) c = Some (?g c)"
    unfolding a by blast
  have pos: "\<forall>c\<in>set ?cs. map_of (age_distribution s) c = Some (weighted_total df c / users_total df)"
    if "users_total df > 0"
    using ages that by simp
  have zero: "\<forall>c\<in>set ?cs. map_of (age_distribution s) c = Some 0" if "users_total df = 0"
    using ages that by simp
  from s tu keys g pos zero show ?thesis
    by (intro exI[of _ s]) (simp del: set_append)
qed

text \<open>
  The two rows A (100 users, sex 60/40) and B (50 users, sex 30/70): 150 users, both
  gender percentages 50, \<open>age_1\<close> 20 and \<open>age_2\<close> 80.
\<close>

theorem weighted_percentages_witness:
  "\<exists>s. get_context_summary (cache_of example_frame) 202412 8 weekday_label = Inr s \<and>
     total_users s = 150 \<and>
     male_pct (gender_distribution s) = 50 \<and>
     female_pct (gender_distribution s) = 50 \<and>
     map_of (age_distribution s) ''age_1'' = Some 20 \<and>
     map_of (age_distribution s) ''age_2'' = Some 80 \<and>
     map_of (age_distribution s) ''age_other'' = Some 0"
proof -
  have u: "users_total example_frame = 150"
    by (simp add: users_total_def cell_value_def example_frame_def example_columns_def
        row_a_def row_b_def mk_row_def)
  have w: "weighted_total example_frame ''sex_1'' = 7500"
    "weighted_total example_frame ''sex_2'' = 7500"
    "weighted_total example_frame ''age_1'' = 3000"
    "weighted_total example_frame ''age_2'' = 12000"
    "weighted_total example_frame ''age_other'' = 0"
    by (simp_all add: weighted_total_def cell_value_def example_frame_def example_columns_def
        row_a_def row_b_def mk_row_def)
  have h: "cache_of example_frame (202412, 8, weekday_label) = Some example_frame"
    "rows example_frame \<noteq> []" "required_columns example_frame"
    by (simp_all add: cache_of_def example_frame_def required_columns_def example_columns_def)
  from weighted_percentages[of "cache_of example_frame" 202412 8 weekday_label example_frame, OF h]
  show ?thesis
    by (auto simp: u w age_columns_def)
qed

text \<open>
  Claim C2. For the row set a filter key returns, \<open>top_locations\<close> has exactly
  \<open>min(5, total_records)\<close> entries; they are the entries of distinct rows of the frame,
  in descending order of \<open>avg_total_users\<close> (a row whose value is NaN after every
  number), and rows with equal \<open>avg_total_users\<close> keep their order in the row set.
\<close>

theorem top_locations_ranked:
  assumes "lookup_dict (month, hour, day_type) = Some df" "required_columns df"
  shows "\<exists>s. get_context_summary lookup_dict month hour day_type = Inr s \<and>
     total_records s = length (rows df) \<and>
     length (top_locations s) = min 5 (total_records s) \<and>
     top_locations s = map (\<lambda>i. location_of df (rows df ! i)) (map fst (top_rows df)) \<and>
     distinct (map fst (top_rows df)) \<and>
     (\<forall>i\<in>set (map fst (top_rows df)). i < length (rows df)) \<and>
     sorted_wrt (ranked_before df) (map fst (top_rows df)) \<and>
     sorted_wrt (\<lambda>a b. \<not> outranks (loc_total_users b) (loc_total_users a)) (top_locations s)"
proof -
  have idx: "\<forall>i\<in>set (map fst (top_rows df)). i < length (rows df)"
    by (auto simp: top_rows_members)
  have locs: "map (\<lambda>ir. location_of df (snd ir)) (top_rows df)
              = map (\<lambda>i. location_of df (rows df ! i)) (map fst (top_rows df))"
    by (simp add: top_rows_members)
  have "sorted_wrt (\<lambda>a b. \<not> outranks (snd b ''avg_total_users'') (snd a ''avg_total_users''))
          (top_rows df)"
    using sorted_top_rows[of df]
    by (rule sorted_wrt_mono_rel[rotated]) (rule precedes_not_outranks)
  then have desc: "sorted_wrt (\<lambda>a b. \<not> outranks (loc_total_users b) (loc_total_users a))
          (map (\<lambda>ir. location_of df (snd ir)) (top_rows df))"
    by (simp add: sorted_wrt_map location_of_def)
  show ?thesis
  proof (cases "rows df = []")
    case True
    then have "top_rows df = []" by (simp add: top_rows_def sort_desc_def enumerate_eq_zip)
    then show ?thesis
      unfolding get_context_summary_no_rows[of lookup_dict month hour day_type df, OF assms(1) True]
      using True by (simp add: empty_summary_def)
  next
    case False
    show ?thesis
      unfolding get_context_summary_ok[of lookup_dict month hour day_type df, OF assms(1) False assms(2)]
      using idx locs desc top_indices_ranked[of df] distinct_top_indices[of df]
      by (simp add: length_top_rows)
  qed
qed

text \<open>
  Rows of 50, 100 and 50 users: the row of 100 comes first and the two rows of 50 follow
  in their original order.
\<close>

theorem top_locations_ranked_witness:
  "\<exists>s. get_context_summary (cache_of tie_frame) 202412 8 weekday_label = Inr s \<and>
     length (top_locations s) = 3 \<and>
     map fst (top_rows tie_frame) = [1, 0, 2] \<and>
     map loc_total_users (top_locations s) = [Num 100, Num 50, Num 50] \<and>
     map loc_lat (top_locations s) = [Num 25, Num 24, Num 23]"
proof -
  have t: "map fst (top_rows tie_frame) = [1, 0, 2]"
    by (simp add: top_rows_def sort_desc_def enumerate_eq_zip tie_frame_def
        row_a_def row_b_def row_c_def mk_row_def upt_rec[of 0] upt_rec[of 1] upt_rec[of 2])
  have h: "cache_of tie_frame (202412, 8, weekday_label) = Some tie_frame"
    "required_columns tie_frame"
    by (simp_all add: cache_of_def tie_frame_def required_columns_def example_columns_def)
  from top_locations_ranked[of "cache_of tie_frame" 202412 8 weekday_label tie_frame, OF h]
  show ?thesis
    unfolding t
    by (auto simp: location_of_def tie_frame_def row_a_def row_b_def row_c_def mk_row_def)
qed

text \<open>
  Claim C3. When the lookup yields no frame or a frame without rows,
  \<open>get_context_summary\<close> returns (it does not raise) the zero summary: no records, no
  users, the three duration values, the two gender values and the ten age values all 0,
  and no top locations.
\<close>

theorem empty_lookup_gives_zero_summary:
  assumes "lookup_dict (month, hour, day_type) = None \<or>
           (\<exists>df. lookup_dict (month, hour, day_type) = Some df \<and> rows df = [])"
  shows "get_context_summary lookup_dict month hour day_type =
     Inr \<lparr> total_records = 0, total_users = 0,
           duration_distribution = \<lparr> under_10min = 0, min_10_30 = 0, over_30min = 0 \<rparr>,
           gender_distribution = \<lparr> male_pct = 0, female_pct = 0 \<rparr>,
           age_distribution =
             [(''age_1'', 0), (''age_2'', 0), (''age_3'', 0), (''age_4'', 0), (''age_5'', 0),
              (''age_6'', 0), (''age_7'', 0), (''age_8'', 0), (''age_9'', 0), (''age_other'', 0)],
           top_locations = [] \<rparr>"
  using assms
  by (auto simp: get_context_summary_def df_empty_def empty_summary_def age_columns_def)

text \<open>A key whose frame has no rows, and a key the cache does not hold.\<close>

theorem empty_lookup_gives_zero_summary_witness:
  "get_context_summary (cache_of no_rows_frame) 202412 8 weekday_label =
     Inr \<lparr> total_records = 0, total_users = 0,
           duration_distribution = \<lparr> under_10min = 0, min_10_30 = 0, over_30min = 0 \<rparr>,
           gender_distribution = \<lparr> male_pct = 0, female_pct = 0 \<rparr>,
           age_distribution =
             [(''age_1'', 0), (''age_2'', 0), (''age_3'', 0), (''age_4'', 0), (''age_5'', 0),
              (''age_6'', 0), (''age_7'', 0), (''age_8'', 0), (''age_9'', 0), (''age_other'', 0)],
           top_locations = [] \<rparr> \<and>
   get_context_summary (cache_of no_rows_frame) 202501 8 weekday_label =
     Inr \<lparr> total_records = 0, total_users = 0,
           duration_distribution = \<lparr> under_10min = 0, min_10_30 = 0, over_30min = 0 \<rparr>,
           gender_distribution = \<lparr> male_pct = 0, female_pct = 0 \<rparr>,
           age_distribution =
             [(''age_1'', 0), (''age_2'', 0), (''age_3'', 0), (''age_4'', 0), (''age_5'', 0),
              (''age_6'', 0), (''age_7'', 0), (''age_8'', 0), (''age_9'', 0), (''age_other'', 0)],
           top_locations = [] \<rparr>"
proof -
  have a: "cache_of no_rows_frame (202412, 8, weekday_label) = None \<or>
        (\<exists>df. cache_of no_rows_frame (202412, 8, weekday_label) = Some df \<and> rows df = [])"
    by (simp add: cache_of_def no_rows_frame_def)
  have b: "cache_of no_rows_frame (202501, 8, weekday_label) = None \<or>
        (\<exists>df. cache_of no_rows_frame (202501, 8, weekday_label) = Some df \<and> rows df = [])"
    by (simp add: cache_of_def)
  show ?thesis
    using empty_lookup_gives_zero_summary[of "cache_of no_rows_frame" 202412 8 weekday_label, OF a]
      empty_lookup_gives_zero_summary[of "cache_of no_rows_frame" 202501 8 weekday_label, OF b]
    by simp
qed

text \<open>
  Claim C4 says that no NaN reaches the output of \<open>get_context_summary\<close>, the dwell-time
  values of the \<open>top_locations\<close> entries in particular. On a frame of one row whose
  \<open>avg_users_under_10min\<close> cell is NaN, the entry of that row carries NaN: the loop
  copies \<open>row.get(column, 0)\<close>, whose default covers a missing column, not a NaN cell.
\<close>

theorem nan_cell_reaches_top_locations:
  "\<exists>s. get_context_summary (cache_of nan_frame) 202412 8 weekday_label = Inr s \<and>
     map loc_total_users (top_locations s) = [Num 10] \<and>
     map loc_under_10min (top_locations s) = [NaN]"
proof -
  have t: "top_rows nan_frame = [(0, row_nan)]"
    by (simp add: top_rows_def sort_desc_def enumerate_eq_zip nan_frame_def)
  have h: "cache_of nan_frame (202412, 8, weekday_label) = Some nan_frame"
    "rows nan_frame \<noteq> []" "required_columns nan_frame"
    by (simp_all add: cache_of_def nan_frame_def required_columns_def example_columns_def)
  from summary_fields[of "cache_of nan_frame" 202412 8 weekday_label nan_frame, OF h]
  show ?thesis
    unfolding t
    by (auto simp: location_of_def row_get_def nan_frame_def example_columns_def
        row_nan_def mk_row_def)
qed

text \<open>
  Claim C6. For a non-empty row set in which the three dwell-time bucket counts of each
  row add up to the row's \<open>avg_total_users\<close>, \<open>get_context_summary\<close> returns
  \<open>total_users\<close> as the sum of \<open>avg_total_users\<close> over the rows and each component of
  \<open>duration_distribution\<close> as the sum of its bucket over the rows, and the three
  components add up to \<open>total_users\<close> (in exact arithmetic; whether or not
  \<open>total_users > 0\<close>).
\<close>

theorem duration_sums_to_total:
  assumes "lookup_dict (month, hour, day_type) = Some df" "rows df \<noteq> []" "required_columns df"
      and "duration_columns df" "list_all buckets_sum_to_total (rows df)"
  shows "\<exists>s. get_context_summary lookup_dict month hour day_type = Inr s \<and>
     total_users s = users_total df \<and>
     under_10min (duration_distribution s) = column_total df ''avg_users_under_10min'' \<and>
     min_10_30 (duration_distribution s) = column_total df ''avg_users_10_30min'' \<and>
     over_30min (duration_distribution s) = column_total df ''avg_users_over_30min'' \<and>
     under_10min (duration_distribution s) + min_10_30 (duration_distribution s)
       + over_30min (duration_distribution s) = total_users s"
proof -
  have "''avg_total_users'' \<in> set (columns df)"
    using assms(3) by (simp add: required_columns_def)
  then have u: "users_total df = nansum (map (\<lambda>r. r ''avg_total_users'') (rows df))"
    by (simp add: users_total_nansum)
  have t: "duration_total df c = column_total df c" for c
    by (simp add: duration_total_def column_total_def cell_value_def nansum_zero_if_nan)
  have "duration_total df ''avg_users_under_10min'' + duration_total df ''avg_users_10_30min''
        + duration_total df ''avg_users_over_30min'' = users_total df"
    unfolding u using assms(4) bucket_sums[OF assms(5)]
    by (simp add: duration_total_def duration_columns_def)
  then show ?thesis
    unfolding get_context_summary_ok[of lookup_dict month hour day_type df, OF assms(1-3)]
    by (simp add: t)
qed

text \<open>
  Rows A (30 + 50 + 20 = 100) and B (15 + 25 + 10 = 50): the components are 45, 75 and
  30, and \<open>total_users\<close> is 150.
\<close>

theorem duration_sums_to_total_witness:
  "\<exists>s. get_context_summary (cache_of example_frame) 202412 8 weekday_label = Inr s \<and>
     total_users s = 150 \<and>
     under_10min (duration_distribution s) = 45 \<and>
     min_10_30 (duration_distribution s) = 75 \<and>
     over_30min (duration_distribution s) = 30 \<and>
     under_10min (duration_distribution s) + min_10_30 (duration_distribution s)
       + over_30min (duration_distribution s) = total_users s"
proof -
  have h: "cache_of example_frame (202412, 8, weekday_label) = Some example_frame"
    "rows example_frame \<noteq> []" "required_columns example_frame"
    "duration_columns example_frame" "list_all buckets_sum_to_total (rows example_frame)"
    by (simp_all add: cache_of_def example_frame_def required_columns_def example_columns_def
        duration_columns_def buckets_sum_to_total_def row_a_def row_b_def mk_row_def)
  have v: "users_total example_frame = 150"
    "column_total example_frame ''avg_users_under_10min'' = 45"
    "column_total example_frame ''avg_users_10_30min'' = 75"
    "column_total example_frame ''avg_users_over_30min'' = 30"
    by (simp_all add: users_total_def column_total_def cell_value_def example_frame_def
        example_columns_def row_a_def row_b_def mk_row_def)
  from duration_sums_to_total[of "cache_of example_frame" 202412 8 weekday_label
          example_frame, OF h]
  show ?thesis
    unfolding v .
qed

section \<open>The conversation: claims\<close>

text \<open>
  Claim C5 bounds the dispatched list by 21 messages. With a history of 21 turns the one
  call made on the client carries 22 messages: the system instruction, the last 20
  turns and the new user turn.
\<close>

theorem twenty_two_messages_dispatched:
  "map (length \<circ> call_messages)
     (fst (generate_response (prompt_builder example_services) example_chat (str ''qwen2.5:7b'')
             (str ''busiest hour?'') example_context (Some long_history))) = [22]
   \<and> \<not> (22::nat) \<le> 21"
  by (simp add: generate_response_def Let_def long_history_def last_n_def)

text \<open>
  Claim C5, amended. Whatever history is supplied, \<open>generate_response\<close> makes exactly one
  \<open>chat\<close> call, with the configured model and the list made of the system instruction,
  then the most recent 20 turns of the history in their original order (all of them when
  there are fewer; the turns left out are the oldest), then the new user turn as the last
  element. The list never exceeds 22 messages.
\<close>

theorem dispatched_messages:
  "\<exists>dropped kept.
     supplied history = dropped @ kept \<and>
     length kept = min 20 (length (supplied history)) \<and>
     fst (generate_response bsp chat self_model user_message ctx history) =
       [ChatCall self_model
          ([\<lparr> role = str ''system'', content = bsp ctx \<rparr>] @ kept
           @ [\<lparr> role = str ''user'', content = user_message \<rparr>])] \<and>
     length ([\<lparr> role = str ''system'', content = bsp ctx \<rparr>] @ kept
             @ [\<lparr> role = str ''user'', content = user_message \<rparr>]) \<le> 22"
proof -
  let ?h = "supplied history"
  have d: "fst (generate_response bsp chat self_model user_message ctx history) =
       [ChatCall self_model
          ([\<lparr> role = str ''system'', content = bsp ctx \<rparr>] @ last_n 20 ?h
           @ [\<lparr> role = str ''user'', content = user_message \<rparr>])]"
    by (cases history) (simp_all add: generate_response_def Let_def supplied_def last_n_def)
  have s: "?h = take (length ?h - 20) ?h @ last_n 20 ?h" by (rule last_n_suffix)
  have l: "length (last_n 20 ?h) = min 20 (length ?h)" by (rule length_last_n)
  have b: "length ([\<lparr> role = str ''system'', content = bsp ctx \<rparr>] @ last_n 20 ?h
             @ [\<lparr> role = str ''user'', content = user_message \<rparr>]) \<le> 22"
    using l by simp
  from s l d b show ?thesis by blast
qed

text \<open>A history of 21 turns: 20 are kept.\<close>

theorem dispatched_messages_witness:
  "\<exists>dropped kept.
     long_history = dropped @ kept \<and>
     length kept = 20 \<and>
     fst (generate_response (prompt_builder example_services) example_chat (str ''qwen2.5:7b'')
            (str ''busiest hour?'') example_context (Some long_history)) =
       [ChatCall (str ''qwen2.5:7b'')
          ([\<lparr> role = str ''system'',
               content = prompt_builder example_services example_context \<rparr>] @ kept
           @ [\<lparr> role = str ''user'', content = str ''busiest hour?'' \<rparr>])]"
proof -
  have l: "supplied (Some long_history) = long_history"
    by (simp add: supplied_def)
  have n: "min 20 (length long_history) = 20"
    by (simp add: long_history_def)
  from dispatched_messages[of "Some long_history" "prompt_builder example_services"
      example_chat "str ''qwen2.5:7b''" "str ''busiest hour?''" example_context]
  show ?thesis
    unfolding l n by blast
qed

text \<open>
  When neither counter holds \<open>None\<close>, the response of either shape gives the content of
  the answer, the configured model, and the sum of the two counters, a missing one read
  as 0.
\<close>

lemma tokens_used_of_integer_counters:
  assumes "fst (generate_response bsp chat self_model user_message ctx history) =
             [ChatCall self_model msgs]"
      and "chat self_model msgs = Inr resp"
      and "chat_eval_count resp \<noteq> IsNone" "chat_prompt_eval_count resp \<noteq> IsNone"
  shows "snd (generate_response bsp chat self_model user_message ctx history) =
     Inr \<lparr> response = chat_content resp, model = self_model,
           tokens_used = or_zero (chat_eval_count resp) + or_zero (chat_prompt_eval_count resp) \<rparr>"
proof -
  have "py_add (read_counter e) (read_counter p) = Inr (or_zero e + or_zero p)"
    if "e \<noteq> IsNone" "p \<noteq> IsNone" for e p
    using that by (cases e; cases p) simp_all
  then show ?thesis using assms
    by (cases resp) (simp_all add: generate_response_def Let_def)
qed

text \<open>
  Claim C7 says that \<open>tokens_used\<close> is \<open>eval_count + prompt_eval_count\<close> with a counter that
  the engine left out read as 0. On a ChatResponse object whose \<open>eval_count\<close> holds
  \<open>None\<close> and whose \<open>prompt_eval_count\<close> is 5, \<open>hasattr\<close> is true, the sum \<open>None + 5\<close>
  raises, and \<open>generate_response\<close> raises the wrapped exception instead of returning 5
  tokens.
\<close>

theorem none_counter_raises:
  "snd (generate_response (prompt_builder example_services) object_chat (str ''qwen2.5:7b'')
          (str ''busiest hour?'') example_context None) =
     Inl (Exception (str ''Failed to generate response: ''
                     @ operand_error ''NoneType'' ''int'')) \<and>
   or_zero IsNone + or_zero (Count 5) = 5"
  by (simp add: generate_response_def Let_def object_chat_def)



section \<open>Request validation: claims\<close>

text \<open>
  Claim C9 gives the accepted months as 100001 to 999912. The validator's lower bound is
  100000: month 100000 is accepted, alone and as part of a context.
\<close>

theorem month_100000_accepted:
  "validate_month 100000 = Inr 100000 \<and>
   valid_data_context \<lparr> ctx_month = 100000, ctx_hour = 8, ctx_day_type = weekday_label \<rparr> \<and>
   (100000::int) \<notin> {100001..999912}"
  by (simp add: validate_month_def valid_data_context_def)

text \<open>
  Claim C9, amended. \<open>validate_month\<close> accepts a month exactly when it lies in
  100000 to 999912; a context is valid exactly when its month is in that range, its hour
  is in 0 to 23 and its day type is one of the two labels; and a request whose context
  is not valid is rejected with a validation error before any cache or engine access.
\<close>

theorem month_range_validation:
  "((\<exists>v'. validate_month v = Inr v') \<longleftrightarrow> 100000 \<le> v \<and> v \<le> 999912) \<and>
   (valid_data_context c \<longleftrightarrow>
      100000 \<le> ctx_month c \<and> ctx_month c \<le> 999912 \<and>
      0 \<le> ctx_hour c \<and> ctx_hour c \<le> 23 \<and>
      ctx_day_type c \<in> {weekday_label, weekend_label}) \<and>
   (\<not> valid_data_context (req_context rq) \<longrightarrow>
      send_message sv now rq = ([], Inl RequestValidationError))"
proof (intro conjI)
  show "(\<exists>v'. validate_month v = Inr v') \<longleftrightarrow> 100000 \<le> v \<and> v \<le> 999912"
    by (simp add: validate_month_def)
  show "valid_data_context c \<longleftrightarrow>
      100000 \<le> ctx_month c \<and> ctx_month c \<le> 999912 \<and>
      0 \<le> ctx_hour c \<and> ctx_hour c \<le> 23 \<and>
      ctx_day_type c \<in> {weekday_label, weekend_label}"
    by (auto simp: valid_data_context_def validate_month_def)
  show "\<not> valid_data_context (req_context rq) \<longrightarrow>
      send_message sv now rq = ([], Inl RequestValidationError)"
    by (simp add: send_message_def valid_chat_request_def)
qed

text \<open>Month 202412 is accepted; hour 24 is not; a request for month 99999 is rejected.\<close>

theorem month_range_validation_witness:
  "(\<exists>v'. validate_month 202412 = Inr v') \<and>
   \<not> valid_data_context \<lparr> ctx_month = 202412, ctx_hour = 24, ctx_day_type = weekday_label \<rparr> \<and>
   send_message example_services 0
     (example_request\<lparr> req_context :=
        \<lparr> ctx_month = 99999, ctx_hour = 8, ctx_day_type = weekday_label \<rparr> \<rparr>)
     = ([], Inl RequestValidationError)"
  using month_range_validation[of 202412
          "\<lparr> ctx_month = 202412, ctx_hour = 24, ctx_day_type = weekday_label \<rparr>"
          "example_request\<lparr> req_context :=
             \<lparr> ctx_month = 99999, ctx_hour = 8, ctx_day_type = weekday_label \<rparr> \<rparr>"
          example_services 0]
  by (simp add: valid_data_context_def validate_month_def)

text \<open>
  Claim C10. A chat request is rejected with a validation error, before any cache or
  engine access, unless its message has 1 to 500 characters, its history has at most 20
  turns, and every turn has a role among user, assistant and system and a content of 1
  to 10000 characters.
\<close>

theorem request_rejected_unless_bounded:
  assumes "\<not> (1 \<le> length (req_message rq) \<and> length (req_message rq) \<le> 500 \<and>
              length (req_history rq) \<le> 20 \<and>
              (\<forall>m\<in>set (req_history rq).
                 cm_role m \<in> {str ''user'', str ''assistant'', str ''system''} \<and>
                 1 \<le> length (cm_content m) \<and> length (cm_content m) \<le> 10000))"
  shows "send_message sv now rq = ([], Inl RequestValidationError)"
  using assms
  by (auto simp: send_message_def valid_chat_request_def valid_chat_message_def list_all_iff)

text \<open>An empty message, and a turn whose role is \<open>tool\<close>.\<close>

theorem request_rejected_unless_bounded_witness:
  "send_message example_services 0 (example_request\<lparr> req_message := [] \<rparr>)
     = ([], Inl RequestValidationError) \<and>
   send_message example_services 0
     (example_request\<lparr> req_history :=
        [\<lparr> cm_role = str ''tool'', cm_content = str ''x'', cm_timestamp = None \<rparr>] \<rparr>)
     = ([], Inl RequestValidationError)"
  using request_rejected_unless_bounded[of "example_request\<lparr> req_message := [] \<rparr>" example_services 0]
    request_rejected_unless_bounded[of "example_request\<lparr> req_history :=
        [\<lparr> cm_role = str ''tool'', cm_content = str ''x'', cm_timestamp = None \<rparr>] \<rparr>"
        example_services 0]
  by (simp add: example_request_def str_def)

end
